theory Spec2Isabelle
  imports Main "HOL-Library.Word"
begin

section \<open>Values shared by the gateway and the orchestrator\<close>

text \<open>
  The gateway is \<^verbatim>\<open>src/src/server.ts\<close> (the exported Express application, lines 1 to 250);
  the orchestrator is the Suitelet \<^verbatim>\<open>onRequest\<close> of \<^verbatim>\<open>src/unnamed/part_000\<close>.
  What the two call but do not define (the \<^verbatim>\<open>form-data\<close> and \<^verbatim>\<open>axios\<close> packages, the
  \<^verbatim>\<open>cors\<close> and JSON body middlewares, the Suitelet's \<^verbatim>\<open>N/file\<close>, \<^verbatim>\<open>N/https\<close> and \<^verbatim>\<open>N/search\<close>
  modules) is a field of a record of collaborators, so that the theorems hold for
  whatever these compute. Three behaviours of the runtime and the framework under the
  gateway are written out, because the handlers' answers depend on them: which statuses
  are sent without a body, which header values \<^verbatim>\<open>res.setHeader\<close> refuses, and what the
  base64 decoder returns.

  A string is the list of its characters' codes, each below 256.
\<close>

type_synonym byte = "8 word"

text \<open>
  A JSON value, as \<^verbatim>\<open>JSON.parse\<close> returns it and \<^verbatim>\<open>res.json\<close> sends it. Numbers are
  integers, as HTTP status codes are; an object lists each of its keys once.
\<close>

datatype json =
    JNull
  | JBool bool
  | JNum int
  | JStr string
  | JArr "json list"
  | JObj "(string \<times> json) list"

text \<open>
  A thrown JavaScript value, with what the source inspects of it:
  \<^verbatim>\<open>err instanceof SyntaxError\<close>, \<^verbatim>\<open>"body" in err\<close>, \<^verbatim>\<open>err.message\<close> and \<^verbatim>\<open>e.toString()\<close>.
\<close>

record js_error =
  instanceof_SyntaxError :: bool
  has_body_property :: bool
  message :: string
  toString :: string

text \<open>\<^verbatim>\<open>Record<string, string>\<close>: an object of string-valued properties.\<close>

type_synonym header_map = "string \<rightharpoonup> string"

section \<open>The gateway: data\<close>

text \<open>
  The request bodies as \<^verbatim>\<open>server.ts\<close> declares them. A field the interface marks optional,
  or that the handler tests for presence, is an option; \<^verbatim>\<open>None\<close> is \<^verbatim>\<open>undefined\<close>.
  The fields \<^verbatim>\<open>method\<close>, \<^verbatim>\<open>headers\<close> and \<^verbatim>\<open>body\<close> of \<^verbatim>\<open>ForwardRequestBody\<close> are \<open>f_method\<close>,
  \<open>f_headers\<close>, \<open>f_body\<close>; \<^verbatim>\<open>url\<close>, \<^verbatim>\<open>method\<close>, \<^verbatim>\<open>headers\<close> of \<^verbatim>\<open>ConvertForwardConfig\<close> are
  \<open>fwd_url\<close>, \<open>fwd_method\<close>, \<open>fwd_headers\<close>.
\<close>

record ForwardRequestBody =
  targetUrl :: "string option"
  f_method :: "string option"
  f_headers :: "header_map option"
  f_body :: "json option"

record ConvertForwardConfig =
  fwd_url :: "string option"
  fwd_method :: "string option"
  fwd_headers :: "header_map option"

record ConvertRequestBody =
  base64Data :: "string option"
  fileName :: "string option"
  mimeType :: "string option"
  forward :: "ConvertForwardConfig option"

text \<open>
  \<^verbatim>\<open>req.body\<close> after the JSON body middleware: an object of one of the two declared shapes,
  or any other JSON value. The middleware either leaves a body (\<^verbatim>\<open>undefined\<close> when the
  request carried none) or passes an error to \<^verbatim>\<open>next\<close>.
\<close>

datatype req_body =
    ForwardBody ForwardRequestBody
  | ConvertBody ConvertRequestBody
  | OtherBody json

datatype parsed_body =
    ParseError js_error
  | Parsed "req_body option"

record Request =
  req_method :: string
  req_path :: string
  x_api_key :: "string option"
  req_body :: parsed_body

text \<open>
  One entry of a \<^verbatim>\<open>FormData\<close>: \<^verbatim>\<open>append(field, value, {filename, contentType})\<close>.
  A \<^verbatim>\<open>FormData\<close> is the list of the entries appended to it, in order.
\<close>

record form_part =
  field_name :: string
  part_value :: "byte list"
  part_filename :: string
  part_contentType :: string

type_synonym FormData = "form_part list"

definition append_part :: "FormData \<Rightarrow> string \<Rightarrow> byte list \<Rightarrow> string \<Rightarrow> string \<Rightarrow> FormData" where
  "append_part fd fld buf fname ctype =
     fd @ [\<lparr>field_name = fld, part_value = buf, part_filename = fname,
            part_contentType = ctype\<rparr>]"

text \<open>
  The argument of \<^verbatim>\<open>axios.request\<close>; its \<^verbatim>\<open>method\<close>, \<^verbatim>\<open>headers\<close> and \<^verbatim>\<open>data\<close> are
  \<open>cfg_method\<close>, \<open>cfg_headers\<close> and \<open>cfg_data\<close>. \<^verbatim>\<open>maxBodyLength\<close> and
  \<^verbatim>\<open>maxContentLength\<close> (both \<^verbatim>\<open>Infinity\<close>) lift size limits and have no field here.
\<close>

datatype request_data =
    JsonData "json option"
  | MultipartData FormData

record AxiosRequestConfig =
  url :: string
  cfg_method :: string
  cfg_headers :: header_map
  cfg_data :: request_data
  validateStatus :: "int \<Rightarrow> bool"

text \<open>What \<^verbatim>\<open>axios.request\<close> resolves to: \<^verbatim>\<open>response.status\<close>, \<^verbatim>\<open>.headers\<close>, \<^verbatim>\<open>.data\<close>.\<close>

record AxiosResponse =
  status :: int
  headers :: json
  data :: json

text \<open>
  The response the gateway sends: the status code, the payload (\<^verbatim>\<open>res.json\<close>, no body,
  \<^verbatim>\<open>res.send\<close> of a buffer, the receipt of \<^verbatim>\<open>/api/test\<close>, or the framework's answer when
  no route matches) and, for a buffer sent with \<^verbatim>\<open>res.send\<close>, the \<^verbatim>\<open>Content-Type\<close> and
  \<^verbatim>\<open>Content-Disposition\<close> it is sent with. A response sent with \<^verbatim>\<open>res.json\<close> lists no
  header here: its headers are the framework's.
\<close>

datatype payload =
    Json json
  | Empty
  | Binary "byte list"
  | TestReceipt "req_body option" string
  | NoRoute

record Response =
  statusCode :: int
  header_fields :: header_map
  body :: payload

text \<open>A handler ends by sending a response or by calling \<^verbatim>\<open>next(error)\<close>.\<close>

datatype handler_result =
    Sent Response
  | NextError js_error

text \<open>
  The collaborators of the gateway.
  \<^item> \<open>env_API_KEY\<close>: \<^verbatim>\<open>process.env.API_KEY\<close>.
  \<^item> \<open>cors_mw\<close>: the \<^verbatim>\<open>cors()\<close> middleware; \<open>Some r\<close> when it answers the request itself,
    \<open>None\<close> when it calls \<^verbatim>\<open>next()\<close>.
  \<^item> \<open>Buffer_from_base64\<close>: \<^verbatim>\<open>Buffer.from(s, "base64")\<close> on a string; the runtime
    returns a buffer for every string (\<open>base64_decode\<close> below is what it computes).
  \<^item> \<open>getHeaders\<close>: \<^verbatim>\<open>formData.getHeaders()\<close>, the framing headers of a form.
  \<^item> \<open>exchange\<close>: the HTTP exchange \<^verbatim>\<open>axios\<close> performs; \<open>Inl\<close> when the request could
    not be built or the transport failed, \<open>Inr\<close> the upstream's response.
  \<^item> \<open>status_error\<close>: the error \<^verbatim>\<open>axios\<close> rejects with when \<^verbatim>\<open>validateStatus\<close>
    refuses a status.
  \<^item> \<open>now_iso\<close>: \<^verbatim>\<open>new Date().toISOString()\<close>.
\<close>

record platform =
  env_API_KEY :: "string option"
  cors_mw :: "Request \<Rightarrow> Response option"
  Buffer_from_base64 :: "string \<Rightarrow> byte list"
  getHeaders :: "FormData \<Rightarrow> header_map"
  exchange :: "AxiosRequestConfig \<Rightarrow> js_error + AxiosResponse"
  status_error :: "AxiosResponse \<Rightarrow> js_error"
  now_iso :: string

section \<open>The gateway: operations\<close>

text \<open>
  \<^verbatim>\<open>axios.request\<close>: the promise resolves with the response when \<^verbatim>\<open>validateStatus\<close>
  accepts its status and rejects otherwise; a failed exchange rejects.
\<close>

definition axios_request :: "platform \<Rightarrow> AxiosRequestConfig \<Rightarrow> js_error + AxiosResponse" where
  "axios_request P cfg =
     (case exchange P cfg of
        Inl e \<Rightarrow> Inl e
      | Inr r \<Rightarrow> if validateStatus cfg (status r) then Inr r else Inl (status_error P r))"

text \<open>
  \<^verbatim>\<open>res.status(c).json(j)\<close> on a fresh response. The framework sends no body with the
  statuses 204, 304 and 205, and the runtime none with an informational status.
\<close>

definition bodiless :: "int \<Rightarrow> bool" where
  "bodiless c \<longleftrightarrow> c = 204 \<or> c = 304 \<or> c = 205 \<or> (100 \<le> c \<and> c \<le> 199)"

definition res_json :: "int \<Rightarrow> json \<Rightarrow> Response" where
  "res_json c j =
     \<lparr>statusCode = c, header_fields = Map.empty,
      body = (if bodiless c then Empty else Json j)\<rparr>"

text \<open>The envelope \<^verbatim>\<open>{status, headers, data}\<close> both forwarding handlers answer with.\<close>

definition envelope :: "AxiosResponse \<Rightarrow> json" where
  "envelope r =
     JObj [(''status'', JNum (status r)), (''headers'', headers r), (''data'', data r)]"

text \<open>
  \<^verbatim>\<open>res.status(response.status).json({status, headers, data})\<close>, inside the handler's
  \<^verbatim>\<open>try\<close>. A status code has three digits; with any other number the runtime throws a
  \<^verbatim>\<open>RangeError\<close> when the head of the response is written, and the handler's \<^verbatim>\<open>catch\<close>
  passes it on. The source never reads the message of that error.
\<close>

definition invalid_status_code :: js_error where
  "invalid_status_code =
     \<lparr>instanceof_SyntaxError = False, has_body_property = False,
      message = ''Invalid status code'', toString = ''RangeError: Invalid status code''\<rparr>"

definition relay :: "AxiosResponse \<Rightarrow> handler_result" where
  "relay r =
     (if 100 \<le> status r \<and> status r \<le> 999 then Sent (res_json (status r) (envelope r))
      else NextError invalid_status_code)"

text \<open>\<^verbatim>\<open>x || "POST"\<close>: the default replaces \<^verbatim>\<open>undefined\<close> and the empty string.\<close>

definition or_POST :: "string option \<Rightarrow> string" where
  "or_POST m = (case m of None \<Rightarrow> ''POST'' | Some s \<Rightarrow> if s = [] then ''POST'' else s)"

text \<open>A destructuring default \<^verbatim>\<open>{x = d}\<close>: the default replaces \<^verbatim>\<open>undefined\<close> only.\<close>

definition or_default :: "'a option \<Rightarrow> 'a \<Rightarrow> 'a" where
  "or_default x d = (case x of None \<Rightarrow> d | Some v \<Rightarrow> v)"

text \<open>
  \<^verbatim>\<open>(req.body || {}) as ForwardRequestBody\<close> and \<^verbatim>\<open>as ConvertRequestBody\<close>: a body of another
  shape has none of the fields the handler reads.
\<close>

definition as_ForwardRequestBody :: "req_body option \<Rightarrow> ForwardRequestBody" where
  "as_ForwardRequestBody b =
     (case b of
        Some (ForwardBody f) \<Rightarrow> f
      | _ \<Rightarrow> \<lparr>targetUrl = None, f_method = None, f_headers = None, f_body = None\<rparr>)"

definition as_ConvertRequestBody :: "req_body option \<Rightarrow> ConvertRequestBody" where
  "as_ConvertRequestBody b =
     (case b of
        Some (ConvertBody c) \<Rightarrow> c
      | _ \<Rightarrow> \<lparr>base64Data = None, fileName = None, mimeType = None, forward = None\<rparr>)"

text \<open>
  \<^verbatim>\<open>app.post("/api/forward")\<close>, lines 76 to 100. The result is the list of requests
  handed to \<^verbatim>\<open>axios.request\<close> and how the handler ended.
\<close>

definition forward_config :: "string \<Rightarrow> ForwardRequestBody \<Rightarrow> AxiosRequestConfig" where
  "forward_config target fb =
     \<lparr>url = target,
      cfg_method = or_default (f_method fb) ''POST'',
      cfg_headers = or_default (f_headers fb) Map.empty,
      cfg_data = JsonData (f_body fb),
      validateStatus = (\<lambda>_. True)\<rparr>"

definition forward_handler ::
  "platform \<Rightarrow> req_body option \<Rightarrow> AxiosRequestConfig list \<times> handler_result" where
  "forward_handler P b =
     (let fb = as_ForwardRequestBody b in
      case targetUrl fb of
        None \<Rightarrow> ([], Sent (res_json 400 (JObj [(''error'', JStr ''targetUrl is required'')])))
      | Some target \<Rightarrow>
          if target = [] then
            ([], Sent (res_json 400 (JObj [(''error'', JStr ''targetUrl is required'')])))
          else
            (let cfg = forward_config target fb in
             case axios_request P cfg of
               Inr response \<Rightarrow> ([cfg], relay response)
             | Inl error \<Rightarrow> ([cfg], NextError error)))"

text \<open>
  \<^verbatim>\<open>app.post("/api/convert/base64-to-binary")\<close>, lines 115 to 193.
  \<open>convert_config\<close> is the argument of \<^verbatim>\<open>axios.request\<close> at lines 162 to 173, built from the
  form of lines 154 to 158.
\<close>

definition convert_config ::
  "platform \<Rightarrow> FormData \<Rightarrow> string \<Rightarrow> ConvertForwardConfig \<Rightarrow> AxiosRequestConfig" where
  "convert_config P formData target fwd =
     \<lparr>url = target,
      cfg_method = or_POST (fwd_method fwd),
      cfg_headers = getHeaders P formData ++ or_default (fwd_headers fwd) Map.empty,
      cfg_data = MultipartData formData,
      validateStatus = (\<lambda>_. True)\<rparr>"

text \<open>
  \<^verbatim>\<open>res.setHeader(name, value)\<close>: the runtime refuses a value that holds a control
  character other than the tab (a code below 32, or 127) by throwing a \<^verbatim>\<open>TypeError\<close>,
  whose message the source never reads; otherwise the header is set.
\<close>

definition invalid_header_char :: "char \<Rightarrow> bool" where
  "invalid_header_char c \<longleftrightarrow>
     (let n = (of_char c :: nat) in (n < 32 \<and> n \<noteq> 9) \<or> n = 127)"

definition header_value_ok :: "string \<Rightarrow> bool" where
  "header_value_ok v = list_all (\<lambda>c. \<not> invalid_header_char c) v"

definition invalid_header_content :: js_error where
  "invalid_header_content =
     \<lparr>instanceof_SyntaxError = False, has_body_property = False,
      message = ''Invalid character in header content'',
      toString = ''TypeError: Invalid character in header content''\<rparr>"

definition setHeader :: "header_map \<Rightarrow> string \<Rightarrow> string \<Rightarrow> js_error + header_map" where
  "setHeader hs hname v =
     (if header_value_ok v then Inr (hs(hname \<mapsto> v)) else Inl invalid_header_content)"

text \<open>
  \<^verbatim>\<open>res.send(buffer)\<close> on a response with the headers \<open>hs\<close>: status 200; the framework
  sets \<^verbatim>\<open>Content-Type\<close> to \<^verbatim>\<open>application/octet-stream\<close> when it is missing or empty.
\<close>

definition send_buffer :: "header_map \<Rightarrow> byte list \<Rightarrow> Response" where
  "send_buffer hs buffer =
     \<lparr>statusCode = 200,
      header_fields =
        (if hs ''Content-Type'' = None \<or> hs ''Content-Type'' = Some []
         then hs(''Content-Type'' \<mapsto> ''application/octet-stream'') else hs),
      body = Binary buffer\<rparr>"

definition content_disposition :: "string \<Rightarrow> string" where
  \<open>content_disposition fname = ''attachment; filename="'' @ fname @ ''"''\<close>

text \<open>Lines 186 to 188, inside the handler's \<^verbatim>\<open>try\<close>.\<close>

definition send_file :: "byte list \<Rightarrow> string \<Rightarrow> string \<Rightarrow> handler_result" where
  "send_file buffer fname mtype =
     (case setHeader Map.empty ''Content-Type'' mtype of
        Inl e \<Rightarrow> NextError e
      | Inr hs \<Rightarrow>
          (case setHeader hs ''Content-Disposition'' (content_disposition fname) of
             Inl e \<Rightarrow> NextError e
           | Inr hs' \<Rightarrow> Sent (send_buffer hs' buffer)))"

text \<open>\<^verbatim>\<open>forward?.url\<close> when it is truthy.\<close>

definition forward_target :: "ConvertForwardConfig option \<Rightarrow> (string \<times> ConvertForwardConfig) option" where
  "forward_target f =
     (case f of
        None \<Rightarrow> None
      | Some fwd \<Rightarrow>
          (case fwd_url fwd of
             None \<Rightarrow> None
           | Some u \<Rightarrow> if u = [] then None else Some (u, fwd)))"

definition convert_handler ::
  "platform \<Rightarrow> req_body option \<Rightarrow> AxiosRequestConfig list \<times> handler_result" where
  "convert_handler P b =
     (let cb = as_ConvertRequestBody b;
          fname = or_default (fileName cb) ''file.bin'';
          mtype = or_default (mimeType cb) ''application/octet-stream''
      in
      case base64Data cb of
        None \<Rightarrow> ([], Sent (res_json 400 (JObj [(''error'', JStr ''base64Data is required'')])))
      | Some b64 \<Rightarrow>
          if b64 = [] then
            ([], Sent (res_json 400 (JObj [(''error'', JStr ''base64Data is required'')])))
          else
            (let buffer = Buffer_from_base64 P b64 in
             case forward_target (forward cb) of
               Some (target, fwd) \<Rightarrow>
                 (let formData = append_part [] ''attachment'' buffer fname mtype;
                      cfg = convert_config P formData target fwd
                  in
                  case axios_request P cfg of
                    Inr response \<Rightarrow> ([cfg], relay response)
                  | Inl error \<Rightarrow> ([cfg], NextError error))
             | None \<Rightarrow> ([], send_file buffer fname mtype)))"

text \<open>The two error-handling middlewares, lines 222 to 241, in their order.\<close>

definition error_handlers :: "js_error \<Rightarrow> Response" where
  "error_handlers err =
     (if instanceof_SyntaxError err \<and> has_body_property err then
        res_json 400 (JObj [(''error'', JStr ''Invalid JSON in request body''),
                            (''details'', JStr (message err))])
      else res_json 500 (JObj [(''error'', JStr ''Internal server error'')]))"

definition finish :: "AxiosRequestConfig list \<times> handler_result \<Rightarrow> AxiosRequestConfig list \<times> Response" where
  "finish hr =
     (case snd hr of
        Sent r \<Rightarrow> (fst hr, r)
      | NextError e \<Rightarrow> (fst hr, error_handlers e))"

text \<open>\<^verbatim>\<open>process.env.API_KEY || "NSZoho@8080"\<close>, line 42.\<close>

definition API_KEY :: "platform \<Rightarrow> string" where
  "API_KEY P =
     (case env_API_KEY P of
        None \<Rightarrow> ''NSZoho@8080''
      | Some k \<Rightarrow> if k = [] then ''NSZoho@8080'' else k)"

text \<open>The test of line 53: \<^verbatim>\<open>!providedKey || providedKey !== API_KEY\<close>.\<close>

definition key_rejected :: "platform \<Rightarrow> string option \<Rightarrow> bool" where
  "key_rejected P providedKey =
     (case providedKey of
        None \<Rightarrow> True
      | Some k \<Rightarrow> k = [] \<or> k \<noteq> API_KEY P)"

definition unauthorized :: Response where
  "unauthorized =
     res_json 401 (JObj [(''error'', JStr ''Unauthorized''),
       (''message'',
        JStr ''Invalid or missing API key. Please provide valid x-api-key header.'')])"

text \<open>
  The routes, lines 76, 115, 196 and 203, tried in the order of their registration; a
  request that matches none gets the framework's answer (status 404).
\<close>

definition routes :: "platform \<Rightarrow> Request \<Rightarrow> req_body option \<Rightarrow> AxiosRequestConfig list \<times> Response" where
  "routes P req b =
     (if req_method req = ''POST'' \<and> req_path req = ''/api/forward'' then
        finish (forward_handler P b)
      else if req_method req = ''POST'' \<and> req_path req = ''/api/convert/base64-to-binary'' then
        finish (convert_handler P b)
      else if req_method req = ''GET'' \<and> req_path req = ''/health'' then
        ([], res_json 200 (JObj [(''status'', JStr ''ok'')]))
      else if req_method req = ''POST'' \<and> req_path req = ''/api/test'' then
        ([], \<lparr>statusCode = 200, header_fields = Map.empty,
              body = TestReceipt b (now_iso P)\<rparr>)
      else ([], \<lparr>statusCode = 404, header_fields = Map.empty, body = NoRoute\<rparr>))"

text \<open>
  The application: the middlewares in the order \<^verbatim>\<open>app.use\<close> registers them (the two
  loggers only call \<^verbatim>\<open>next()\<close>): \<^verbatim>\<open>cors()\<close>, the JSON body parser, the API key check of
  lines 44 to 67, the routes, the error handlers.
\<close>

definition app :: "platform \<Rightarrow> Request \<Rightarrow> AxiosRequestConfig list \<times> Response" where
  "app P req =
     (case cors_mw P req of
        Some r \<Rightarrow> ([], r)
      | None \<Rightarrow>
          (case req_body req of
             ParseError err \<Rightarrow> ([], error_handlers err)
           | Parsed b \<Rightarrow>
               if req_path req = ''/health'' \<or> req_path req = ''/'' then routes P req b
               else if key_rejected P (x_api_key req) then ([], unauthorized)
               else routes P req b))"

section \<open>The orchestrator\<close>














text \<open>
  Reading a property of a parsed JSON value that is not \<^verbatim>\<open>null\<close>: the value stored under
  the key in an object, \<^verbatim>\<open>undefined\<close> otherwise.
\<close>

definition property :: "json \<Rightarrow> string \<Rightarrow> json option" where
  "property j k = (case j of JObj kvs \<Rightarrow> map_of kvs k | _ \<Rightarrow> None)"








section \<open>The base64 decoder of the runtime\<close>

text \<open>
  \<^verbatim>\<open>Buffer.from(s, "base64")\<close> as the runtime computes it. A character of the standard or of
  the URL-safe alphabet stands for six bits; decoding stops at the first \<^verbatim>\<open>=\<close>; every
  other character is passed over. Four characters give three bytes; of a last group,
  two characters give one byte, three give two, and a single one gives none. No string
  is refused.
\<close>

definition base64_alphabet :: string where
  "base64_alphabet = ''ABCDEFGHIJKLMNOPQRSTUVWXYZabcdefghijklmnopqrstuvwxyz0123456789+/''"

fun position :: "'a \<Rightarrow> 'a list \<Rightarrow> nat option" where
  "position x [] = None"
| "position x (y # ys) = (if x = y then Some 0 else map_option Suc (position x ys))"

definition unbase64 :: "char \<Rightarrow> nat option" where
  "unbase64 c =
     (if c = CHR ''-'' then Some 62
      else if c = CHR ''_'' then Some 63
      else position c base64_alphabet)"

definition sextets :: "string \<Rightarrow> nat list" where
  "sextets s = List.map_filter unbase64 (takeWhile (\<lambda>c. c \<noteq> CHR ''='') s)"

fun pack :: "nat list \<Rightarrow> byte list" where
  "pack (a # b # c # d # rest) =
     of_nat (a * 4 + b div 16) # of_nat ((b mod 16) * 16 + c div 4) #
     of_nat ((c mod 4) * 64 + d) # pack rest"
| "pack [a, b, c] = [of_nat (a * 4 + b div 16), of_nat ((b mod 16) * 16 + c div 4)]"
| "pack [a, b] = [of_nat (a * 4 + b div 16)]"
| "pack _ = []"

definition base64_decode :: "string \<Rightarrow> byte list" where
  "base64_decode s = pack (sextets s)"


section \<open>Concrete collaborators and requests\<close>

text \<open>
  Fixed inputs on which the theorems below are instantiated. The decoder of
  \<open>example_platform\<close> is the runtime's; its upstream answers 201 at one URL, 429 at
  another, 204 at a third and is unreachable elsewhere.
\<close>

definition connection_refused :: js_error where
  "connection_refused =
     \<lparr>instanceof_SyntaxError = False, has_body_property = False,
      message = ''connect ECONNREFUSED'', toString = ''Error: connect ECONNREFUSED''\<rparr>"

definition body_syntax_error :: js_error where
  "body_syntax_error =
     \<lparr>instanceof_SyntaxError = True, has_body_property = True,
      message = ''Unexpected token } in JSON at position 1'',
      toString = ''SyntaxError: Unexpected token } in JSON at position 1''\<rparr>"

definition example_exchange :: "AxiosRequestConfig \<Rightarrow> js_error + AxiosResponse" where
  "example_exchange cfg =
     (if url cfg = ''http://zoho.example/created'' then
        Inr \<lparr>status = 201, headers = JObj [], data = JObj [(''id'', JStr ''123'')]\<rparr>
      else if url cfg = ''http://zoho.example/busy'' then
        Inr \<lparr>status = 429, headers = JObj [], data = JObj [(''message'', JStr ''slow down'')]\<rparr>
      else if url cfg = ''http://zoho.example/no-content'' then
        Inr \<lparr>status = 204, headers = JObj [], data = JStr []\<rparr>
      else Inl connection_refused)"

definition example_platform :: platform where
  "example_platform =
     \<lparr>env_API_KEY = None,
      cors_mw = (\<lambda>_. None),
      Buffer_from_base64 = base64_decode,
      getHeaders = (\<lambda>_. [''content-type'' \<mapsto> ''multipart/form-data; boundary=XYZ'']),
      exchange = example_exchange,
      status_error = (\<lambda>_. connection_refused),
      now_iso = ''2024-01-01T00:00:00.000Z''\<rparr>"

definition hello_body :: "ConvertForwardConfig option \<Rightarrow> ConvertRequestBody" where
  "hello_body fwd =
     \<lparr>base64Data = Some ''SGVsbG8='', fileName = Some ''test.txt'',
      mimeType = Some ''text/plain'', forward = fwd\<rparr>"



definition convert_request :: "string option \<Rightarrow> ConvertRequestBody \<Rightarrow> Request" where
  "convert_request key cb =
     \<lparr>req_method = ''POST'', req_path = ''/api/convert/base64-to-binary'',
      x_api_key = key, req_body = Parsed (Some (ConvertBody cb))\<rparr>"

definition forward_request :: "string \<Rightarrow> Request" where
  "forward_request target =
     \<lparr>req_method = ''POST'', req_path = ''/api/forward'',
      x_api_key = Some ''NSZoho@8080'',
      req_body = Parsed (Some (ForwardBody
        \<lparr>targetUrl = Some target, f_method = None, f_headers = None,
         f_body = Some (JObj [(''n'', JNum 1)])\<rparr>))\<rparr>"

definition forward_to :: "string \<Rightarrow> header_map \<Rightarrow> ConvertForwardConfig" where
  "forward_to target hs = \<lparr>fwd_url = Some target, fwd_method = None, fwd_headers = Some hs\<rparr>"

definition unparsable_request :: Request where
  "unparsable_request =
     \<lparr>req_method = ''POST'', req_path = ''/api/forward'', x_api_key = None,
      req_body = ParseError body_syntax_error\<rparr>"

definition health_probe :: Request where
  "health_probe =
     \<lparr>req_method = ''GET'', req_path = ''/health'', x_api_key = None,
      req_body = Parsed None\<rparr>"






section \<open>Properties of the gateway\<close>

text \<open>
  A request is admitted with body \<open>b\<close> when the CORS middleware passes it on, the body
  parser leaves \<open>b\<close> and the API key check accepts its key.
\<close>

definition admitted :: "platform \<Rightarrow> Request \<Rightarrow> req_body option \<Rightarrow> bool" where
  "admitted P req b \<longleftrightarrow>
     cors_mw P req = None \<and> req_body req = Parsed b \<and> \<not> key_rejected P (x_api_key req)"

definition is_convert :: "Request \<Rightarrow> bool" where
  "is_convert req \<longleftrightarrow>
     req_method req = ''POST'' \<and> req_path req = ''/api/convert/base64-to-binary''"

definition is_forward :: "Request \<Rightarrow> bool" where
  "is_forward req \<longleftrightarrow> req_method req = ''POST'' \<and> req_path req = ''/api/forward''"

text \<open>The form the convert handler builds for a body and its base64 string.\<close>

definition attachment_form :: "platform \<Rightarrow> ConvertRequestBody \<Rightarrow> string \<Rightarrow> FormData" where
  "attachment_form P cb b64 =
     [\<lparr>field_name = ''attachment'',
       part_value = Buffer_from_base64 P b64,
       part_filename = or_default (fileName cb) ''file.bin'',
       part_contentType = or_default (mimeType cb) ''application/octet-stream''\<rparr>]"

definition internal_server_error :: Response where
  "internal_server_error = res_json 500 (JObj [(''error'', JStr ''Internal server error'')])"

text \<open>The response a handler's end leads to: the one it sent, or the error handlers'.\<close>

definition answer :: "handler_result \<Rightarrow> Response" where
  "answer h = (case h of Sent r \<Rightarrow> r | NextError e \<Rightarrow> error_handlers e)"

lemma axios_request_exchange:
  "validateStatus cfg = (\<lambda>_. True) \<Longrightarrow> axios_request P cfg = exchange P cfg"
  by (simp add: axios_request_def split: sum.splits)

lemma finish_answer: "finish hr = (fst hr, answer (snd hr))"
  by (simp add: finish_def answer_def split: handler_result.splits)


lemma statuses_with_body:
  "\<not> bodiless 200" "\<not> bodiless 400" "\<not> bodiless 401" "\<not> bodiless 500"
  by (simp_all add: bodiless_def)

lemma error_handlers_generic:
  "\<not> (instanceof_SyntaxError e \<and> has_body_property e) \<Longrightarrow>
     error_handlers e = internal_server_error"
  by (auto simp add: error_handlers_def internal_server_error_def)


lemma error_handlers_status:
  "statusCode (error_handlers e) = 400 \<or> statusCode (error_handlers e) = 500"
  by (simp add: error_handlers_def res_json_def)

lemma app_admitted: "admitted P req b \<Longrightarrow> app P req = routes P req b"
  by (simp add: app_def admitted_def)

lemma routes_convert: "is_convert req \<Longrightarrow> routes P req b = finish (convert_handler P b)"
  by (simp add: routes_def is_convert_def)

lemma routes_forward: "is_forward req \<Longrightarrow> routes P req b = finish (forward_handler P b)"
  by (simp add: routes_def is_forward_def)

lemma convert_handler_forwards:
  assumes "base64Data cb = Some b64" and "b64 \<noteq> []"
    and "forward cb = Some fwd" and "fwd_url fwd = Some target" and "target \<noteq> []"
  shows "convert_handler P (Some (ConvertBody cb)) =
     ([convert_config P (attachment_form P cb b64) target fwd],
      case exchange P (convert_config P (attachment_form P cb b64) target fwd) of
        Inr response \<Rightarrow> relay response
      | Inl e \<Rightarrow> NextError e)"
proof -
  have cfg: "validateStatus (convert_config P fd target fwd) = (\<lambda>_. True)" for fd
    by (simp add: convert_config_def)
  have tgt: "forward_target (forward cb) = Some (target, fwd)"
    using assms by (simp add: forward_target_def)
  show ?thesis
    using assms(1,2) tgt
    by (simp add: convert_handler_def as_ConvertRequestBody_def attachment_form_def
        append_part_def axios_request_exchange [OF cfg] Let_def split: sum.splits)
qed


lemma forward_handler_forwards:
  assumes "targetUrl fb = Some target" and "target \<noteq> []"
  shows "forward_handler P (Some (ForwardBody fb)) =
     ([forward_config target fb],
      case exchange P (forward_config target fb) of
        Inr response \<Rightarrow> relay response
      | Inl e \<Rightarrow> NextError e)"
proof -
  have cfg: "validateStatus (forward_config target fb) = (\<lambda>_. True)"
    by (simp add: forward_config_def)
  show ?thesis
    using assms
    by (simp add: forward_handler_def as_ForwardRequestBody_def
        axios_request_exchange [OF cfg] Let_def split: sum.splits)
qed

lemma relay_valid:
  "100 \<le> status r \<Longrightarrow> status r \<le> 999 \<Longrightarrow> relay r = Sent (res_json (status r) (envelope r))"
  by (simp add: relay_def)

lemma relay_invalid:
  "\<not> (100 \<le> status r \<and> status r \<le> 999) \<Longrightarrow> answer (relay r) = internal_server_error"
  by (auto simp add: relay_def answer_def error_handlers_generic invalid_status_code_def)

lemma relayed_is_no_error_response: "res_json (status r) (envelope r) \<noteq> error_handlers e"
proof -
  have "body (res_json (status r) (envelope r)) \<noteq> body (error_handlers e)"
    by (simp add: error_handlers_def res_json_def envelope_def statuses_with_body)
  then show ?thesis by auto
qed

lemma app_convert_forwards:
  assumes "admitted P req (Some (ConvertBody cb))" and "is_convert req"
    and "base64Data cb = Some b64" and "b64 \<noteq> []"
    and "forward cb = Some fwd" and "fwd_url fwd = Some target" and "target \<noteq> []"
  shows "app P req =
     ([convert_config P (attachment_form P cb b64) target fwd],
      case exchange P (convert_config P (attachment_form P cb b64) target fwd) of
        Inr response \<Rightarrow> answer (relay response)
      | Inl e \<Rightarrow> error_handlers e)"
  by (simp add: app_admitted [OF assms(1)] routes_convert [OF assms(2)]
      convert_handler_forwards [OF assms(3-7)] finish_answer answer_def split: sum.splits)

lemma app_forward_forwards:
  assumes "admitted P req (Some (ForwardBody fb))" and "is_forward req"
    and "targetUrl fb = Some target" and "target \<noteq> []"
  shows "app P req =
     ([forward_config target fb],
      case exchange P (forward_config target fb) of
        Inr response \<Rightarrow> answer (relay response)
      | Inl e \<Rightarrow> error_handlers e)"
  by (simp add: app_admitted [OF assms(1)] routes_forward [OF assms(2)]
      forward_handler_forwards [OF assms(3,4)] finish_answer answer_def split: sum.splits)





lemma admitted_example_convert:
  "admitted example_platform (convert_request (Some ''NSZoho@8080'') cb) (Some (ConvertBody cb))"
  by (simp add: admitted_def example_platform_def convert_request_def key_rejected_def
      API_KEY_def)

lemma is_convert_example: "is_convert (convert_request key cb)"
  by (simp add: is_convert_def convert_request_def)

lemma admitted_example_forward:
  "admitted example_platform (forward_request target)
     (Some (ForwardBody \<lparr>targetUrl = Some target, f_method = None, f_headers = None,
        f_body = Some (JObj [(''n'', JNum 1)])\<rparr>))"
  by (simp add: admitted_def example_platform_def forward_request_def key_rejected_def
      API_KEY_def)

lemma is_forward_example: "is_forward (forward_request target)"
  by (simp add: is_forward_def forward_request_def)

lemma exchange_example_busy:
  "exchange example_platform (convert_config example_platform fd ''http://zoho.example/busy'' fwd)
     = Inr \<lparr>status = 429, headers = JObj [], data = JObj [(''message'', JStr ''slow down'')]\<rparr>"
  by (simp add: example_platform_def example_exchange_def convert_config_def)

lemma exchange_example_created:
  "exchange example_platform (forward_config ''http://zoho.example/created'' fb)
     = Inr \<lparr>status = 201, headers = JObj [], data = JObj [(''id'', JStr ''123'')]\<rparr>"
  by (simp add: example_platform_def example_exchange_def forward_config_def)

lemma exchange_example_down_convert:
  "exchange example_platform (convert_config example_platform fd ''http://down.example/'' fwd)
     = Inl connection_refused"
  by (simp add: example_platform_def example_exchange_def convert_config_def)

lemma exchange_example_down_forward:
  "exchange example_platform (forward_config ''http://down.example/'' fb) = Inl connection_refused"
  by (simp add: example_platform_def example_exchange_def forward_config_def)

lemma exchange_example_no_content:
  "exchange example_platform (forward_config ''http://zoho.example/no-content'' fb)
     = Inr \<lparr>status = 204, headers = JObj [], data = JStr []\<rparr>"
  by (simp add: example_platform_def example_exchange_def forward_config_def)

lemma example_decoder: "Buffer_from_base64 example_platform = base64_decode"
  by (simp add: example_platform_def)

lemma decode_hello: "base64_decode ''SGVsbG8='' = [0x48, 0x65, 0x6c, 0x6c, 0x6f]"
  by (simp add: base64_decode_def sextets_def unbase64_def base64_alphabet_def
      List.map_filter_simps)

subsection \<open>Passthrough of the upstream's status\<close>

text \<open>
  Claim C2, as amended. On the generic forward operation and on the convert operation
  with a forward target, when the exchange with the upstream completes with a response
  \<open>r\<close> whose status is a three-digit code, the gateway answers with exactly that
  status; the body is the JSON envelope whose \<^verbatim>\<open>status\<close>, \<^verbatim>\<open>headers\<close> and \<^verbatim>\<open>data\<close> are those
  of \<open>r\<close>, unless the status is 204, 205, 304 or informational, with which no body is
  sent; and the answer is never one of the error handlers' responses.
\<close>

theorem upstream_status_passthrough:
  "(admitted P req (Some (ForwardBody fb)) \<and> is_forward req \<and>
    targetUrl fb = Some target \<and> target \<noteq> [] \<and>
    exchange P (forward_config target fb) = Inr r \<and>
    100 \<le> status r \<and> status r \<le> 999
    \<longrightarrow> statusCode (snd (app P req)) = status r \<and>
        body (snd (app P req)) =
          (if bodiless (status r) then Empty
           else Json (JObj [(''status'', JNum (status r)), (''headers'', headers r),
                            (''data'', data r)])) \<and>
        (\<forall>e. snd (app P req) \<noteq> error_handlers e))
   \<and>
   (admitted P req' (Some (ConvertBody cb)) \<and> is_convert req' \<and>
    base64Data cb = Some b64 \<and> b64 \<noteq> [] \<and>
    forward cb = Some fwd \<and> fwd_url fwd = Some u \<and> u \<noteq> [] \<and>
    exchange P (convert_config P (attachment_form P cb b64) u fwd) = Inr r' \<and>
    100 \<le> status r' \<and> status r' \<le> 999
    \<longrightarrow> statusCode (snd (app P req')) = status r' \<and>
        body (snd (app P req')) =
          (if bodiless (status r') then Empty
           else Json (JObj [(''status'', JNum (status r')), (''headers'', headers r'),
                            (''data'', data r')])) \<and>
        (\<forall>e. snd (app P req') \<noteq> error_handlers e))"
proof (intro conjI impI; (elim conjE)?)
  assume a: "admitted P req (Some (ForwardBody fb))" "is_forward req"
    "targetUrl fb = Some target" "target \<noteq> []"
    and x: "exchange P (forward_config target fb) = Inr r"
    and v: "100 \<le> status r" "status r \<le> 999"
  have s: "snd (app P req) = res_json (status r) (envelope r)"
    by (simp add: app_forward_forwards [OF a] x relay_valid [OF v] answer_def)
  show "statusCode (snd (app P req)) = status r"
    by (simp add: s res_json_def)
  show "body (snd (app P req)) =
      (if bodiless (status r) then Empty
       else Json (JObj [(''status'', JNum (status r)), (''headers'', headers r),
                        (''data'', data r)]))"
    by (simp add: s res_json_def envelope_def)
  show "\<forall>e. snd (app P req) \<noteq> error_handlers e"
    by (simp add: s relayed_is_no_error_response)
next
  assume a: "admitted P req' (Some (ConvertBody cb))" "is_convert req'"
    "base64Data cb = Some b64" "b64 \<noteq> []" "forward cb = Some fwd" "fwd_url fwd = Some u"
    "u \<noteq> []"
    and x: "exchange P (convert_config P (attachment_form P cb b64) u fwd) = Inr r'"
    and v: "100 \<le> status r'" "status r' \<le> 999"
  have s: "snd (app P req') = res_json (status r') (envelope r')"
    by (simp add: app_convert_forwards [OF a] x relay_valid [OF v] answer_def)
  show "statusCode (snd (app P req')) = status r'"
    by (simp add: s res_json_def)
  show "body (snd (app P req')) =
      (if bodiless (status r') then Empty
       else Json (JObj [(''status'', JNum (status r')), (''headers'', headers r'),
                        (''data'', data r')]))"
    by (simp add: s res_json_def envelope_def)
  show "\<forall>e. snd (app P req') \<noteq> error_handlers e"
    by (simp add: s relayed_is_no_error_response)
qed

theorem upstream_status_passthrough_witness:
  "admitted example_platform (forward_request ''http://zoho.example/created'')
     (Some (ForwardBody \<lparr>targetUrl = Some ''http://zoho.example/created'', f_method = None,
        f_headers = None, f_body = Some (JObj [(''n'', JNum 1)])\<rparr>)) \<and>
   is_forward (forward_request ''http://zoho.example/created'') \<and>
   exchange example_platform (forward_config ''http://zoho.example/created''
       \<lparr>targetUrl = Some ''http://zoho.example/created'', f_method = None,
        f_headers = None, f_body = Some (JObj [(''n'', JNum 1)])\<rparr>)
     = Inr \<lparr>status = 201, headers = JObj [], data = JObj [(''id'', JStr ''123'')]\<rparr> \<and>
   statusCode (snd (app example_platform (forward_request ''http://zoho.example/created''))) = 201 \<and>
   body (snd (app example_platform (forward_request ''http://zoho.example/created''))) =
     Json (JObj [(''status'', JNum 201), (''headers'', JObj []),
                 (''data'', JObj [(''id'', JStr ''123'')])]) \<and>
   admitted example_platform
     (convert_request (Some ''NSZoho@8080'')
        (hello_body (Some (forward_to ''http://zoho.example/busy'' Map.empty))))
     (Some (ConvertBody (hello_body (Some (forward_to ''http://zoho.example/busy'' Map.empty))))) \<and>
   is_convert (convert_request (Some ''NSZoho@8080'')
        (hello_body (Some (forward_to ''http://zoho.example/busy'' Map.empty)))) \<and>
   statusCode (snd (app example_platform
     (convert_request (Some ''NSZoho@8080'')
        (hello_body (Some (forward_to ''http://zoho.example/busy'' Map.empty)))))) = 429 \<and>
   body (snd (app example_platform
     (convert_request (Some ''NSZoho@8080'')
        (hello_body (Some (forward_to ''http://zoho.example/busy'' Map.empty)))))) =
     Json (JObj [(''status'', JNum 429), (''headers'', JObj []),
                 (''data'', JObj [(''message'', JStr ''slow down'')])])"
proof -
  let ?fb = "\<lparr>targetUrl = Some ''http://zoho.example/created'', f_method = None,
        f_headers = None, f_body = Some (JObj [(''n'', JNum 1)])\<rparr>"
  let ?fwd = "forward_to ''http://zoho.example/busy'' Map.empty"
  let ?cb = "hello_body (Some ?fwd)"
  let ?r = "\<lparr>status = 201, headers = JObj [], data = JObj [(''id'', JStr ''123'')]\<rparr>"
  let ?r' = "\<lparr>status = 429, headers = JObj [],
              data = JObj [(''message'', JStr ''slow down'')]\<rparr>"
  have f: "targetUrl ?fb = Some ''http://zoho.example/created''"
      "''http://zoho.example/created'' \<noteq> []"
    by simp_all
  have c: "base64Data ?cb = Some ''SGVsbG8=''" "''SGVsbG8='' \<noteq> []" "forward ?cb = Some ?fwd"
      "fwd_url ?fwd = Some ''http://zoho.example/busy''" "''http://zoho.example/busy'' \<noteq> []"
    by (simp_all add: hello_body_def forward_to_def)
  have b: "\<not> bodiless 201" "\<not> bodiless 429"
    by (simp_all add: bodiless_def)
  note t = upstream_status_passthrough [where P = example_platform
      and req = "forward_request ''http://zoho.example/created''" and fb = ?fb
      and target = "''http://zoho.example/created''" and r = ?r
      and req' = "convert_request (Some ''NSZoho@8080'') ?cb" and cb = ?cb
      and ?b64.0 = "''SGVsbG8=''" and fwd = ?fwd and u = "''http://zoho.example/busy''"
      and r' = ?r']
  show ?thesis
    using t f c b admitted_example_forward [of "''http://zoho.example/created''"]
      is_forward_example [of "''http://zoho.example/created''"]
      exchange_example_created [of ?fb]
      admitted_example_convert [of ?cb] is_convert_example [of "Some ''NSZoho@8080''" ?cb]
      exchange_example_busy [of "attachment_form example_platform ?cb ''SGVsbG8=''" ?fwd]
    by simp
qed

text \<open>
  The claim as first stated (a JSON body whose status field is X, whatever X) fails at
  an upstream status 204: the answer has status 204 and no body.
\<close>

theorem no_content_is_relayed_without_body:
  "exchange example_platform (forward_config ''http://zoho.example/no-content''
       \<lparr>targetUrl = Some ''http://zoho.example/no-content'', f_method = None,
        f_headers = None, f_body = Some (JObj [(''n'', JNum 1)])\<rparr>)
     = Inr \<lparr>status = 204, headers = JObj [], data = JStr []\<rparr> \<and>
   app example_platform (forward_request ''http://zoho.example/no-content'') =
     ([forward_config ''http://zoho.example/no-content''
         \<lparr>targetUrl = Some ''http://zoho.example/no-content'', f_method = None,
          f_headers = None, f_body = Some (JObj [(''n'', JNum 1)])\<rparr>],
      \<lparr>statusCode = 204, header_fields = Map.empty, body = Empty\<rparr>)"
proof -
  let ?fb = "\<lparr>targetUrl = Some ''http://zoho.example/no-content'', f_method = None,
        f_headers = None, f_body = Some (JObj [(''n'', JNum 1)])\<rparr>"
  have f: "targetUrl ?fb = Some ''http://zoho.example/no-content''"
      "''http://zoho.example/no-content'' \<noteq> []"
    by simp_all
  show ?thesis
    by (simp add: app_forward_forwards
          [OF admitted_example_forward [of "''http://zoho.example/no-content''"]
            is_forward_example f]
        exchange_example_no_content relay_def answer_def res_json_def bodiless_def)
qed

subsection \<open>The body forwarded\<close>

text \<open>
  Claim C5. For every convert request with a forward URL, the request handed to the HTTP
  client carries a multipart form of exactly one part: its field is \<^verbatim>\<open>attachment\<close>, its
  value the decoded bytes, its filename and content type the request's \<^verbatim>\<open>fileName\<close> and
  \<^verbatim>\<open>mimeType\<close> (or their defaults when absent).
\<close>

theorem forward_body_is_single_attachment_part:
  assumes "admitted P req (Some (ConvertBody cb))" and "is_convert req"
    and "base64Data cb = Some b64" and "b64 \<noteq> []"
    and "forward cb = Some fwd" and "fwd_url fwd = Some target" and "target \<noteq> []"
  shows "map cfg_data (fst (app P req)) =
     [MultipartData
        [\<lparr>field_name = ''attachment'',
          part_value = Buffer_from_base64 P b64,
          part_filename = or_default (fileName cb) ''file.bin'',
          part_contentType = or_default (mimeType cb) ''application/octet-stream''\<rparr>]]"
  by (simp add: app_convert_forwards [OF assms] convert_config_def attachment_form_def)

theorem forward_body_is_single_attachment_part_witness:
  "admitted example_platform
     (convert_request (Some ''NSZoho@8080'')
        (hello_body (Some (forward_to ''http://zoho.example/busy'' Map.empty))))
     (Some (ConvertBody (hello_body (Some (forward_to ''http://zoho.example/busy'' Map.empty))))) \<and>
   is_convert (convert_request (Some ''NSZoho@8080'')
        (hello_body (Some (forward_to ''http://zoho.example/busy'' Map.empty)))) \<and>
   map cfg_data (fst (app example_platform
     (convert_request (Some ''NSZoho@8080'')
        (hello_body (Some (forward_to ''http://zoho.example/busy'' Map.empty)))))) =
     [MultipartData
        [\<lparr>field_name = ''attachment'', part_value = [0x48, 0x65, 0x6c, 0x6c, 0x6f],
          part_filename = ''test.txt'', part_contentType = ''text/plain''\<rparr>]]"
proof -
  let ?fwd = "forward_to ''http://zoho.example/busy'' Map.empty"
  let ?cb = "hello_body (Some ?fwd)"
  have c: "base64Data ?cb = Some ''SGVsbG8=''" "''SGVsbG8='' \<noteq> []" "forward ?cb = Some ?fwd"
      "fwd_url ?fwd = Some ''http://zoho.example/busy''" "''http://zoho.example/busy'' \<noteq> []"
    by (simp_all add: hello_body_def forward_to_def)
  have d: "Buffer_from_base64 example_platform ''SGVsbG8='' = [0x48, 0x65, 0x6c, 0x6c, 0x6f]"
      "fileName ?cb = Some ''test.txt''" "mimeType ?cb = Some ''text/plain''"
    by (simp_all add: example_decoder decode_hello hello_body_def)
  show ?thesis
    using forward_body_is_single_attachment_part
        [OF admitted_example_convert [of ?cb] is_convert_example c]
      admitted_example_convert [of ?cb] is_convert_example [of "Some ''NSZoho@8080''" ?cb] d
    by (simp add: or_default_def)
qed

subsection \<open>The file returned directly\<close>




subsection \<open>A forward object without a URL\<close>




subsection \<open>A failed exchange\<close>

text \<open>
  Claim C7. On both forwarding operations, when the exchange with the upstream fails
  (the client throws instead of returning a response) and the thrown value is not a
  \<^verbatim>\<open>SyntaxError\<close> carrying a \<^verbatim>\<open>body\<close> property (the JSON body parser's error, the one value
  the first error handler answers itself), the gateway answers 500 with exactly
  \<^verbatim>\<open>{error: "Internal server error"}\<close>: nothing of the thrown value reaches the response.
\<close>

theorem failed_exchange_is_generic_500:
  "(admitted P req (Some (ForwardBody fb)) \<and> is_forward req \<and>
    targetUrl fb = Some target \<and> target \<noteq> [] \<and>
    exchange P (forward_config target fb) = Inl e \<and>
    \<not> (instanceof_SyntaxError e \<and> has_body_property e)
    \<longrightarrow> snd (app P req) =
          \<lparr>statusCode = 500, header_fields = Map.empty,
           body = Json (JObj [(''error'', JStr ''Internal server error'')])\<rparr>)
   \<and>
   (admitted P req' (Some (ConvertBody cb)) \<and> is_convert req' \<and>
    base64Data cb = Some b64 \<and> b64 \<noteq> [] \<and>
    forward cb = Some fwd \<and> fwd_url fwd = Some u \<and> u \<noteq> [] \<and>
    exchange P (convert_config P (attachment_form P cb b64) u fwd) = Inl e' \<and>
    \<not> (instanceof_SyntaxError e' \<and> has_body_property e')
    \<longrightarrow> snd (app P req') =
          \<lparr>statusCode = 500, header_fields = Map.empty,
           body = Json (JObj [(''error'', JStr ''Internal server error'')])\<rparr>)"
proof (intro conjI impI; (elim conjE)?)
  assume a: "admitted P req (Some (ForwardBody fb))" "is_forward req"
    "targetUrl fb = Some target" "target \<noteq> []"
    and x: "exchange P (forward_config target fb) = Inl e"
    and n: "\<not> (instanceof_SyntaxError e \<and> has_body_property e)"
  have "snd (app P req) = error_handlers e"
    by (simp add: app_forward_forwards [OF a] x)
  with n show "snd (app P req) =
      \<lparr>statusCode = 500, header_fields = Map.empty,
       body = Json (JObj [(''error'', JStr ''Internal server error'')])\<rparr>"
    by (simp add: error_handlers_def res_json_def bodiless_def)
next
  assume a: "admitted P req' (Some (ConvertBody cb))" "is_convert req'"
    "base64Data cb = Some b64" "b64 \<noteq> []" "forward cb = Some fwd" "fwd_url fwd = Some u"
    "u \<noteq> []"
    and x: "exchange P (convert_config P (attachment_form P cb b64) u fwd) = Inl e'"
    and n: "\<not> (instanceof_SyntaxError e' \<and> has_body_property e')"
  have "snd (app P req') = error_handlers e'"
    by (simp add: app_convert_forwards [OF a] x)
  with n show "snd (app P req') =
      \<lparr>statusCode = 500, header_fields = Map.empty,
       body = Json (JObj [(''error'', JStr ''Internal server error'')])\<rparr>"
    by (simp add: error_handlers_def res_json_def bodiless_def)
qed

theorem failed_exchange_is_generic_500_witness:
  "admitted example_platform (forward_request ''http://down.example/'')
     (Some (ForwardBody \<lparr>targetUrl = Some ''http://down.example/'', f_method = None,
        f_headers = None, f_body = Some (JObj [(''n'', JNum 1)])\<rparr>)) \<and>
   is_forward (forward_request ''http://down.example/'') \<and>
   exchange example_platform (forward_config ''http://down.example/''
       \<lparr>targetUrl = Some ''http://down.example/'', f_method = None,
        f_headers = None, f_body = Some (JObj [(''n'', JNum 1)])\<rparr>)
     = Inl connection_refused \<and>
   \<not> (instanceof_SyntaxError connection_refused \<and> has_body_property connection_refused) \<and>
   snd (app example_platform (forward_request ''http://down.example/'')) =
     \<lparr>statusCode = 500, header_fields = Map.empty,
      body = Json (JObj [(''error'', JStr ''Internal server error'')])\<rparr> \<and>
   admitted example_platform
     (convert_request (Some ''NSZoho@8080'')
        (hello_body (Some (forward_to ''http://down.example/'' Map.empty))))
     (Some (ConvertBody (hello_body (Some (forward_to ''http://down.example/'' Map.empty))))) \<and>
   is_convert (convert_request (Some ''NSZoho@8080'')
        (hello_body (Some (forward_to ''http://down.example/'' Map.empty)))) \<and>
   snd (app example_platform
     (convert_request (Some ''NSZoho@8080'')
        (hello_body (Some (forward_to ''http://down.example/'' Map.empty))))) =
     \<lparr>statusCode = 500, header_fields = Map.empty,
      body = Json (JObj [(''error'', JStr ''Internal server error'')])\<rparr>"
proof -
  let ?fb = "\<lparr>targetUrl = Some ''http://down.example/'', f_method = None,
        f_headers = None, f_body = Some (JObj [(''n'', JNum 1)])\<rparr>"
  let ?fwd = "forward_to ''http://down.example/'' Map.empty"
  let ?cb = "hello_body (Some ?fwd)"
  have f: "targetUrl ?fb = Some ''http://down.example/''" "''http://down.example/'' \<noteq> []"
    by simp_all
  have c: "base64Data ?cb = Some ''SGVsbG8=''" "''SGVsbG8='' \<noteq> []" "forward ?cb = Some ?fwd"
      "fwd_url ?fwd = Some ''http://down.example/''"
    by (simp_all add: hello_body_def forward_to_def)
  have n: "\<not> (instanceof_SyntaxError connection_refused \<and> has_body_property connection_refused)"
    by (simp add: connection_refused_def)
  note t = failed_exchange_is_generic_500 [where P = example_platform
      and req = "forward_request ''http://down.example/''" and fb = ?fb
      and target = "''http://down.example/''" and e = connection_refused
      and req' = "convert_request (Some ''NSZoho@8080'') ?cb" and cb = ?cb
      and ?b64.0 = "''SGVsbG8=''" and fwd = ?fwd and u = "''http://down.example/''"
      and e' = connection_refused]
  show ?thesis
    using t f c n admitted_example_forward [of "''http://down.example/''"]
      is_forward_example [of "''http://down.example/''"]
      exchange_example_down_forward [of ?fb]
      admitted_example_convert [of ?cb] is_convert_example [of "Some ''NSZoho@8080''" ?cb]
      exchange_example_down_convert [of "attachment_form example_platform ?cb ''SGVsbG8=''" ?fwd]
    by simp
qed

subsection \<open>Malformed base64\<close>

lemma takeWhile_filter_commute:
  assumes "\<And>x. \<not> P x \<Longrightarrow> Q x"
  shows "takeWhile P (filter Q xs) = filter Q (takeWhile P xs)"
  using assms by (induction xs) auto


lemma unbase64_equals_sign: "unbase64 (CHR ''='') = None"
  by (simp add: unbase64_def base64_alphabet_def)






subsection \<open>The API key check\<close>

lemma API_KEY_not_empty: "API_KEY P \<noteq> []"
  by (simp add: API_KEY_def split: option.splits)

lemma key_rejected_iff: "key_rejected P k \<longleftrightarrow> k \<noteq> Some (API_KEY P)"
  using API_KEY_not_empty [of P] by (auto simp add: key_rejected_def split: option.splits)

text \<open>
  Claim C9, as amended. For every request that the CORS middleware passes on and whose
  JSON body the parser accepts: on every path other than \<^verbatim>\<open>/health\<close> and \<^verbatim>\<open>/\<close> the gateway
  answers 401, before any route runs, whenever the \<^verbatim>\<open>x-api-key\<close> header is absent or differs
  from the configured key, and hands the request to the routes when the header equals
  it; on \<^verbatim>\<open>/health\<close> and \<^verbatim>\<open>/\<close> the request goes to the routes whatever the header, and a
  \<^verbatim>\<open>GET /health\<close> is answered \<^verbatim>\<open>{status: "ok"}\<close>.
\<close>

theorem api_key_gate:
  "(cors_mw P req = None \<and> req_body req = Parsed b \<and>
    req_path req \<noteq> ''/health'' \<and> req_path req \<noteq> ''/'' \<and>
    x_api_key req \<noteq> Some (API_KEY P)
    \<longrightarrow> fst (app P req) = [] \<and> statusCode (snd (app P req)) = 401 \<and>
        snd (app P req) = unauthorized)
   \<and>
   (cors_mw P req = None \<and> req_body req = Parsed b \<and> x_api_key req = Some (API_KEY P)
    \<longrightarrow> app P req = routes P req b)
   \<and>
   (cors_mw P req = None \<and> req_body req = Parsed b \<and>
    (req_path req = ''/health'' \<or> req_path req = ''/'')
    \<longrightarrow> app P req = routes P req b)
   \<and>
   (cors_mw P req = None \<and> req_body req = Parsed b \<and>
    req_method req = ''GET'' \<and> req_path req = ''/health''
    \<longrightarrow> app P req =
          ([], \<lparr>statusCode = 200, header_fields = Map.empty,
                body = Json (JObj [(''status'', JStr ''ok'')])\<rparr>))"
proof (intro conjI)
  show "cors_mw P req = None \<and> req_body req = Parsed b \<and>
      req_path req \<noteq> ''/health'' \<and> req_path req \<noteq> ''/'' \<and>
      x_api_key req \<noteq> Some (API_KEY P)
      \<longrightarrow> fst (app P req) = [] \<and> statusCode (snd (app P req)) = 401 \<and>
          snd (app P req) = unauthorized"
    by (simp add: app_def key_rejected_iff unauthorized_def res_json_def bodiless_def)
next
  show "cors_mw P req = None \<and> req_body req = Parsed b \<and> x_api_key req = Some (API_KEY P)
      \<longrightarrow> app P req = routes P req b"
    by (simp add: app_def key_rejected_iff)
next
  show "cors_mw P req = None \<and> req_body req = Parsed b \<and>
      (req_path req = ''/health'' \<or> req_path req = ''/'')
      \<longrightarrow> app P req = routes P req b"
    by (auto simp add: app_def)
next
  show "cors_mw P req = None \<and> req_body req = Parsed b \<and>
      req_method req = ''GET'' \<and> req_path req = ''/health''
      \<longrightarrow> app P req =
            ([], \<lparr>statusCode = 200, header_fields = Map.empty,
                  body = Json (JObj [(''status'', JStr ''ok'')])\<rparr>)"
    by (simp add: app_def routes_def res_json_def bodiless_def)
qed

theorem api_key_gate_witness:
  "cors_mw example_platform (convert_request (Some ''guess'') (hello_body None)) = None \<and>
   req_body (convert_request (Some ''guess'') (hello_body None))
     = Parsed (Some (ConvertBody (hello_body None))) \<and>
   req_path (convert_request (Some ''guess'') (hello_body None)) \<noteq> ''/health'' \<and>
   req_path (convert_request (Some ''guess'') (hello_body None)) \<noteq> ''/'' \<and>
   x_api_key (convert_request (Some ''guess'') (hello_body None))
     \<noteq> Some (API_KEY example_platform) \<and>
   statusCode (snd (app example_platform
     (convert_request (Some ''guess'') (hello_body None)))) = 401 \<and>
   statusCode (snd (app example_platform (convert_request None (hello_body None)))) = 401 \<and>
   x_api_key (convert_request (Some ''NSZoho@8080'') (hello_body None))
     = Some (API_KEY example_platform) \<and>
   app example_platform (convert_request (Some ''NSZoho@8080'') (hello_body None)) =
     routes example_platform (convert_request (Some ''NSZoho@8080'') (hello_body None))
       (Some (ConvertBody (hello_body None))) \<and>
   cors_mw example_platform health_probe = None \<and>
   req_body health_probe = Parsed None \<and>
   x_api_key health_probe = None \<and>
   app example_platform health_probe =
     ([], \<lparr>statusCode = 200, header_fields = Map.empty,
           body = Json (JObj [(''status'', JStr ''ok'')])\<rparr>)"
proof -
  let ?b = "Some (ConvertBody (hello_body None))"
  have k: "API_KEY example_platform = ''NSZoho@8080''"
    by (simp add: API_KEY_def example_platform_def)
  have c: "cors_mw example_platform r = None" for r
    by (simp add: example_platform_def)
  have q: "req_body (convert_request key (hello_body None)) = Parsed ?b"
      "req_path (convert_request key (hello_body None)) = ''/api/convert/base64-to-binary''"
      "x_api_key (convert_request key (hello_body None)) = key" for key
    by (simp_all add: convert_request_def)
  have h: "req_body health_probe = Parsed None" "req_method health_probe = ''GET''"
      "req_path health_probe = ''/health''" "x_api_key health_probe = None"
    by (simp_all add: health_probe_def)
  have w1: "statusCode (snd (app example_platform
      (convert_request (Some ''guess'') (hello_body None)))) = 401"
    using api_key_gate [of example_platform "convert_request (Some ''guess'') (hello_body None)" ?b]
    by (simp add: k c q unauthorized_def res_json_def bodiless_def)
  have w2: "statusCode (snd (app example_platform
      (convert_request None (hello_body None)))) = 401"
    using api_key_gate [of example_platform "convert_request None (hello_body None)" ?b]
    by (simp add: k c q unauthorized_def res_json_def bodiless_def)
  have w3: "app example_platform (convert_request (Some ''NSZoho@8080'') (hello_body None)) =
      routes example_platform (convert_request (Some ''NSZoho@8080'') (hello_body None)) ?b"
    using api_key_gate
      [of example_platform "convert_request (Some ''NSZoho@8080'') (hello_body None)" ?b]
    by (simp add: k c q)
  have w4: "app example_platform health_probe =
      ([], \<lparr>statusCode = 200, header_fields = Map.empty,
            body = Json (JObj [(''status'', JStr ''ok'')])\<rparr>)"
  proof -
    have "cors_mw example_platform health_probe = None \<and>
        req_body health_probe = Parsed None \<and>
        req_method health_probe = ''GET'' \<and> req_path health_probe = ''/health''"
      by (simp add: c h)
    with api_key_gate [of example_platform health_probe None] show ?thesis
      by blast
  qed
  show ?thesis
    unfolding w1 w2 w4 using w3 by (simp add: k c q h)
qed

text \<open>
  The claim as first stated (401 on every operation but the probe whenever the header is
  absent) fails: the body parser runs before the key check, so a \<^verbatim>\<open>POST /api/forward\<close>
  without a key whose body is not JSON is answered 400 by the first error handler.
\<close>

theorem unparsable_body_without_key_is_400:
  "req_method unparsable_request = ''POST'' \<and>
   req_path unparsable_request = ''/api/forward'' \<and>
   x_api_key unparsable_request = None \<and>
   cors_mw example_platform unparsable_request = None \<and>
   app example_platform unparsable_request =
     ([], \<lparr>statusCode = 400, header_fields = Map.empty,
           body = Json (JObj [(''error'', JStr ''Invalid JSON in request body''),
                              (''details'', JStr ''Unexpected token } in JSON at position 1'')])\<rparr>)"
  by (simp add: unparsable_request_def example_platform_def app_def error_handlers_def
      body_syntax_error_def res_json_def bodiless_def)

section \<open>Properties of the orchestrator\<close>








lemma property_envelope_status: "property (envelope r) ''status'' = Some (JNum (status r))"
  by (simp add: property_def envelope_def)

subsection \<open>Classification of an upload\<close>


subsection \<open>Completeness and order of the report\<close>


subsection \<open>The example batch\<close>










end
